theory Spec2Isabelle
  imports Complex_Main
begin

section \<open>JavaScript strings\<close>

text \<open>
  Strings are lists of \<^typ>\<open>char\<close>, read as code units below 256. The white space of
  \<^verbatim>\<open>String.prototype.trim\<close> and of the regular expression class \<^verbatim>\<open>\s\<close> is, in that
  range, TAB, LF, VT, FF, CR, SPACE and NBSP.
\<close>

definition isWhiteSpace :: "char \<Rightarrow> bool" where
  "isWhiteSpace c \<longleftrightarrow>
     c = CHR 0x09 \<or> c = CHR 0x0A \<or> c = CHR 0x0B \<or> c = CHR 0x0C \<or> c = CHR 0x0D \<or>
     c = CHR 0x20 \<or> c = CHR 0xA0"

definition trim :: "string \<Rightarrow> string" where
  "trim s = rev (dropWhile isWhiteSpace (rev (dropWhile isWhiteSpace s)))"

fun startsWith :: "string \<Rightarrow> string \<Rightarrow> bool" where
  "startsWith s [] = True"
| "startsWith [] (p # ps) = False"
| "startsWith (c # cs) (p # ps) = (c = p \<and> startsWith cs ps)"

definition endsWith :: "string \<Rightarrow> string \<Rightarrow> bool" where
  "endsWith s p = startsWith (rev s) (rev p)"

fun str_includes :: "string \<Rightarrow> string \<Rightarrow> bool" where
  "str_includes [] p = (p = [])"
| "str_includes (c # cs) p = (startsWith (c # cs) p \<or> str_includes cs p)"

text \<open>
  \<^verbatim>\<open>path.basename\<close> (POSIX): trailing separators are dropped, then the last component is
  taken.
\<close>

definition basename :: "string \<Rightarrow> string" where
  "basename p =
     rev (takeWhile (\<lambda>c. c \<noteq> CHR ''/'') (dropWhile (\<lambda>c. c = CHR ''/'') (rev p)))"

text \<open>\<^verbatim>\<open>Array.prototype.findIndex\<close>; \<^verbatim>\<open>-1\<close> is \<^term>\<open>None\<close>.\<close>

fun findIndex :: "('a \<Rightarrow> bool) \<Rightarrow> 'a list \<Rightarrow> nat option" where
  "findIndex P [] = None"
| "findIndex P (x # xs) =
     (if P x then Some 0 else (case findIndex P xs of None \<Rightarrow> None | Some i \<Rightarrow> Some (Suc i)))"

text \<open>\<^verbatim>\<open>xs.splice(i, 1)\<close>.\<close>

definition splice1 :: "nat \<Rightarrow> 'a list \<Rightarrow> 'a list" where
  "splice1 i xs = take i xs @ drop (Suc i) xs"

section \<open>Data model\<close>

text \<open>
  JavaScript numbers that hold instants, delays, percentages and indices are integers here;
  \<^verbatim>\<open>null\<close> and \<^verbatim>\<open>undefined\<close> are \<^term>\<open>None\<close>. Errors are values: a function that can throw
  returns \<open>error + 'a\<close>, with \<^term>\<open>Inl\<close> for the exception.
\<close>

datatype error =
    FileNameRequired
  | InvalidFileName
  | InvalidCredentialsFile
  | NoAccountsAvailable
  | InvalidAccountIndex int
  | InvalidProjectId string
  | BuildBodyRequired
  | NoAccountsForModel string
  | AllAccountsInCooldown string
  | UpstreamExhausted string int
  | External string

text \<open>
  \<^verbatim>\<open>projectIdResolvedAt\<close> is a number, a string, or the string that
  \<^verbatim>\<open>new Date().toISOString()\<close> gave at an instant (never empty).
\<close>

datatype resolved_at = ResolvedNum int | ResolvedStr string | ResolvedISO int

record credentials =
  access_token :: string
  refresh_token :: string
  expiry_date :: "int option"
  email :: "string option"
  projectId :: "string option"
  projectIdResolvedAt :: "resolved_at option"

text \<open>
  A pending promise of \<^verbatim>\<open>refreshToken\<close> is its identity together with the \<^verbatim>\<open>await\<close> at
  which the asynchronous body stands: on \<^verbatim>\<open>httpClient.refreshToken\<close>, on
  \<^verbatim>\<open>fetchProjectId\<close> (holding the token data received), or on \<^verbatim>\<open>fs.writeFile\<close>
  (holding the access token it will resolve to).
\<close>

datatype refresh_stage = AwaitToken | AwaitProjectId credentials | AwaitWrite string

text \<open>
  Likewise for the pending promise of \<^verbatim>\<open>ensureProjectId\<close>: on \<^verbatim>\<open>fetchProjectId\<close>, or on
  \<^verbatim>\<open>fs.writeFile\<close> (holding the project id it will resolve to).
\<close>

datatype project_stage = AwaitFetch | AwaitProjectWrite string

datatype timer = Timer "int option"

record account =
  filePath :: string
  creds :: credentials
  refreshPromise :: "(nat \<times> refresh_stage) option"
  refreshTimer :: "timer option"
  projectPromise :: "(nat \<times> project_stage) option"

datatype quota_group = Claude | Gemini

text \<open>
  A \<^verbatim>\<open>Response\<close>: its status, its headers, and the text of its body, \<^term>\<open>None\<close> when
  reading the body fails.
\<close>

record response =
  status :: int
  headers :: "(string \<times> string) list"
  bodyText :: "string option"

text \<open>A parsed JSON value; a number is kept with the text \<^verbatim>\<open>String\<close> gives for it.\<close>

datatype json =
    JNull
  | JBool bool
  | JNum rat string
  | JStr string
  | JArr "json list"
  | JObj "(string \<times> json) list"

record quota_entry =
  q_remainingPercent :: "int option"
  q_resetTimeMs :: "int option"
  q_cooldownUntilMs :: "int option"
  q_updatedAtMs :: "int option"

record cached_error =
  c_status :: int
  c_headers :: "(string \<times> string) list"
  c_bodyText :: string
  c_cachedAtMs :: int

text \<open>What the program does to the outside, in the order it does it.\<close>

datatype event =
    Unlink string
  | WriteFile string credentials
  | HttpRefreshToken string
  | HttpFetchProjectId string
  | HttpCallV1Internal string string string
  | Sleep int

text \<open>
  The state of the \<^verbatim>\<open>AuthManager\<close> (the accounts and the current index of each quota
  group), of the \<^verbatim>\<open>UpstreamClient\<close> (the quota cache and the cached errors), and of the
  world around them: the clock \<^verbatim>\<open>Date.now()\<close> reads, the number of input/output
  operations completed so far, and the trace of effects.
\<close>

record world =
  accounts :: "account list"
  claudeIndex :: int
  geminiIndex :: int
  modelQuotaByAccount :: "string \<rightharpoonup> (string \<rightharpoonup> quota_entry)"
  lastErrorByModel :: "string \<rightharpoonup> cached_error"
  clock :: int
  io_count :: nat
  events :: "event list"
  nextPromise :: nat

text \<open>
  The environment: what each input/output operation answers and how long it takes, by the
  number of operations completed before it, the configuration read at start-up, and
  \<^verbatim>\<open>JSON.parse\<close> (\<^term>\<open>None\<close> when it throws).
\<close>

record env =
  FIXED_RETRY_DELAY_MS :: int
  elapsed :: "nat \<Rightarrow> nat"
  refreshToken_result :: "nat \<Rightarrow> error + credentials"
  fetchProjectId_result :: "nat \<Rightarrow> error + string"
  writeFile_result :: "nat \<Rightarrow> error option"
  callV1Internal_result :: "nat \<Rightarrow> error + response"
  JSON_parse :: "string \<Rightarrow> json option"

text \<open>An awaited operation completes: time passes, and the next operation gets the next answer.\<close>

definition tick :: "env \<Rightarrow> world \<Rightarrow> world" where
  "tick e w = w\<lparr>clock := clock w + int (elapsed e (io_count w)), io_count := Suc (io_count w)\<rparr>"

definition emit :: "event \<Rightarrow> world \<Rightarrow> world" where
  "emit ev w = w\<lparr>events := events w @ [ev]\<rparr>"

section \<open>AuthManager\<close>

definition sanitizeCredentialFileName :: "string \<Rightarrow> error + string" where
  "sanitizeCredentialFileName fileName =
     (let name = trim fileName in
      if name = [] then Inl FileNameRequired
      else if str_includes name ''/'' \<or> str_includes name [CHR 0x5C] \<or> str_includes name ''..''
        then Inl InvalidFileName
      else if \<not> endsWith name ''.json'' then Inl InvalidCredentialsFile
      else Inr name)"

fun getCurrentAccountIndex :: "world \<Rightarrow> quota_group \<Rightarrow> int" where
  "getCurrentAccountIndex w Claude = claudeIndex w"
| "getCurrentAccountIndex w Gemini = geminiIndex w"

fun setCurrentAccountIndex :: "quota_group \<Rightarrow> int \<Rightarrow> world \<Rightarrow> world" where
  "setCurrentAccountIndex Claude i w = w\<lparr>claudeIndex := i\<rparr>"
| "setCurrentAccountIndex Gemini i w = w\<lparr>geminiIndex := i\<rparr>"

text \<open>
  The body of the loop over the two groups that ends \<^verbatim>\<open>deleteAccountByFile\<close>: \<open>idx\<close> is
  the slot removed, and the account list is already the shorter one.
\<close>

definition adjustCurrentIndex :: "nat \<Rightarrow> quota_group \<Rightarrow> world \<Rightarrow> world" where
  "adjustCurrentIndex idx g w =
     (let current = getCurrentAccountIndex w g in
      if length (accounts w) = 0 then setCurrentAccountIndex g 0 w
      else if int idx < current then setCurrentAccountIndex g (max 0 (current - 1)) w
      else if int idx = current
        then setCurrentAccountIndex g (min current (int (length (accounts w)) - 1)) w
      else w)"

text \<open>
  \<^verbatim>\<open>deleteAccountByFile\<close>. Cancelling the refresh timer of the account leaves no trace in
  the state: the timer lives in the account, and the account leaves the list. A failure of
  \<^verbatim>\<open>fs.unlink\<close> is swallowed.
\<close>

definition deleteAccountByFile :: "env \<Rightarrow> world \<Rightarrow> string \<Rightarrow> (error + bool) \<times> world" where
  "deleteAccountByFile e w fileName =
     (case sanitizeCredentialFileName fileName of
        Inl err \<Rightarrow> (Inl err, w)
      | Inr safeName \<Rightarrow>
          (case findIndex (\<lambda>a. basename (filePath a) = safeName) (accounts w) of
             None \<Rightarrow> (Inr False, w)
           | Some idx \<Rightarrow>
               (let w1 = tick e (emit (Unlink (filePath (accounts w ! idx))) w);
                    w2 = w1\<lparr>accounts := splice1 idx (accounts w1)\<rparr>
                in (Inr True, adjustCurrentIndex idx Gemini (adjustCurrentIndex idx Claude w2)))))"

section \<open>AuthManager: token refresh and credential lookup\<close>

definition isValidProjectId :: "string option \<Rightarrow> bool" where
  "isValidProjectId p = (case p of None \<Rightarrow> False | Some v \<Rightarrow> trim v \<noteq> [])"

definition hasProjectIdRepairMarker :: "credentials \<Rightarrow> bool" where
  "hasProjectIdRepairMarker c =
     (case projectIdResolvedAt c of
        None \<Rightarrow> False
      | Some (ResolvedNum n) \<Rightarrow> True
      | Some (ResolvedStr s) \<Rightarrow> trim s \<noteq> []
      | Some (ResolvedISO t) \<Rightarrow> True)"

text \<open>
  Modelled from the spec: \<^verbatim>\<open>TokenRefresher.scheduleRefresh\<close> is not among the sources. By the
  specification it cancels any previous timer of the account and installs a new one,
  computed from the expiry date of the credentials.
\<close>

definition scheduleRefresh :: "account \<Rightarrow> account" where
  "scheduleRefresh a = a\<lparr>refreshTimer := Some (Timer (expiry_date (creds a)))\<rparr>"

definition updateAccount :: "nat \<Rightarrow> (account \<Rightarrow> account) \<Rightarrow> world \<Rightarrow> world" where
  "updateAccount i f w = w\<lparr>accounts := (accounts w)[i := f (accounts w ! i)]\<rparr>"

subsection \<open>\<^verbatim>\<open>refreshToken\<close>, one await at a time\<close>

text \<open>
  The call itself, up to the first \<^verbatim>\<open>await\<close>: with a promise in the slot it returns that
  promise and does nothing else; with an empty slot it sends the refresh request, creates
  a promise and stores it in the slot. The result is the promise.
\<close>

definition refreshToken_call :: "world \<Rightarrow> nat \<Rightarrow> (nat \<times> refresh_stage) \<times> world" where
  "refreshToken_call w i =
     (case refreshPromise (accounts w ! i) of
        Some promise \<Rightarrow> (promise, w)
      | None \<Rightarrow>
          (let p = nextPromise w;
               w1 = emit (HttpRefreshToken (refresh_token (creds (accounts w ! i)))) w
           in ((p, AwaitToken),
               updateAccount i (\<lambda>a. a\<lparr>refreshPromise := Some (p, AwaitToken)\<rparr>)
                 (w1\<lparr>nextPromise := Suc p\<rparr>))))"

text \<open>The \<^verbatim>\<open>finally\<close> block: \<^verbatim>\<open>account.refreshPromise = null\<close>.\<close>

definition clearRefreshPromise :: "nat \<Rightarrow> world \<Rightarrow> world" where
  "clearRefreshPromise i w = updateAccount i (\<lambda>a. a\<lparr>refreshPromise := None\<rparr>) w"

text \<open>
  After the token data is there and the project id is settled: \<^verbatim>\<open>account.creds = data\<close>,
  then the file write is started.
\<close>

definition storeCreds :: "nat \<Rightarrow> nat \<Rightarrow> credentials \<Rightarrow> world \<Rightarrow> world" where
  "storeCreds i p data w =
     emit (WriteFile (filePath (accounts w ! i)) data)
       (updateAccount i
          (\<lambda>a. a\<lparr>creds := data, refreshPromise := Some (p, AwaitWrite (access_token data))\<rparr>) w)"

text \<open>
  The awaited operation of the pending refresh \<open>(p, stage)\<close> of account \<open>i\<close> completes,
  and the asynchronous body runs to its next \<^verbatim>\<open>await\<close> (\<^term>\<open>Inl\<close> the new stage) or to its
  end (\<^term>\<open>Inr\<close> how the promise settles: rejected with an error, or fulfilled with the
  access token).
\<close>

fun refresh_step ::
  "env \<Rightarrow> world \<Rightarrow> nat \<Rightarrow> nat \<Rightarrow> refresh_stage \<Rightarrow> (refresh_stage + (error + string)) \<times> world" where
  "refresh_step e w i p AwaitToken =
     (let w1 = tick e w; a = accounts w ! i
      in case refreshToken_result e (io_count w) of
           Inl err \<Rightarrow> (Inr (Inl err), clearRefreshPromise i w1)
         | Inr data0 \<Rightarrow>
             (let data = (case email (creds a) of
                            None \<Rightarrow> data0
                          | Some m \<Rightarrow> if m = [] then data0 else data0\<lparr>email := Some m\<rparr>)
              in if isValidProjectId (projectId (creds a)) \<and> hasProjectIdRepairMarker (creds a)
                 then
                   (let data' = data\<lparr>projectId := map_option trim (projectId (creds a)),
                                      projectIdResolvedAt := projectIdResolvedAt (creds a)\<rparr>
                    in (Inl (AwaitWrite (access_token data')), storeCreds i p data' w1))
                 else
                   (Inl (AwaitProjectId data),
                    updateAccount i (\<lambda>a. a\<lparr>refreshPromise := Some (p, AwaitProjectId data)\<rparr>)
                      (emit (HttpFetchProjectId (access_token data)) w1))))"
| "refresh_step e w i p (AwaitProjectId data) =
     (let w1 = tick e w
      in case fetchProjectId_result e (io_count w) of
           Inl err \<Rightarrow> (Inr (Inl err), clearRefreshPromise i w1)
         | Inr pid \<Rightarrow>
             if \<not> isValidProjectId (Some pid)
             then (Inr (Inl (InvalidProjectId pid)), clearRefreshPromise i w1)
             else
               (let data' = data\<lparr>projectId := Some pid,
                                  projectIdResolvedAt := Some (ResolvedISO (clock w1))\<rparr>
                in (Inl (AwaitWrite (access_token data')), storeCreds i p data' w1)))"
| "refresh_step e w i p (AwaitWrite tok) =
     (let w1 = tick e w
      in case writeFile_result e (io_count w) of
           Some err \<Rightarrow> (Inr (Inl err), clearRefreshPromise i w1)
         | None \<Rightarrow> (Inr (Inr tok), clearRefreshPromise i (updateAccount i scheduleRefresh w1)))"

fun stageRank :: "refresh_stage \<Rightarrow> nat" where
  "stageRank AwaitToken = 2"
| "stageRank (AwaitProjectId data) = 1"
| "stageRank (AwaitWrite tok) = 0"

lemma refresh_step_rank:
  "refresh_step e w i p stage = (Inl stage', w') \<Longrightarrow> stageRank stage' < stageRank stage"
  by (cases stage) (auto simp: Let_def split: sum.splits if_splits option.splits)

text \<open>\<^verbatim>\<open>await promise\<close>: the pending refresh runs until its promise settles.\<close>

function await_refresh ::
  "env \<Rightarrow> world \<Rightarrow> nat \<Rightarrow> nat \<Rightarrow> refresh_stage \<Rightarrow> (error + string) \<times> world" where
  "await_refresh e w i p stage =
     (case refresh_step e w i p stage of
        (Inr outcome, w') \<Rightarrow> (outcome, w')
      | (Inl stage', w') \<Rightarrow> await_refresh e w' i p stage')"
  by pat_completeness auto
termination
  by (relation "measure (\<lambda>(e, w, i, p, stage). stageRank stage)")
     (auto dest: refresh_step_rank [OF sym])

declare await_refresh.simps [simp del]

text \<open>\<^verbatim>\<open>await this.refreshToken(account)\<close>.\<close>

definition refreshToken :: "env \<Rightarrow> world \<Rightarrow> nat \<Rightarrow> (error + string) \<times> world" where
  "refreshToken e w i =
     (let ((p, stage), w1) = refreshToken_call w i in await_refresh e w1 i p stage)"

subsection \<open>\<^verbatim>\<open>ensureProjectId\<close>\<close>

text \<open>
  The promise of \<^verbatim>\<open>ensureProjectId\<close> settles, and the caller that created it clears the slot
  in its \<^verbatim>\<open>finally\<close> block.
\<close>

fun project_step ::
  "env \<Rightarrow> world \<Rightarrow> nat \<Rightarrow> nat \<Rightarrow> project_stage \<Rightarrow> (project_stage + (error + string)) \<times> world" where
  "project_step e w i p AwaitFetch =
     (let w1 = tick e w
      in case fetchProjectId_result e (io_count w) of
           Inl err \<Rightarrow> (Inr (Inl err), updateAccount i (\<lambda>a. a\<lparr>projectPromise := None\<rparr>) w1)
         | Inr pid \<Rightarrow>
             if \<not> isValidProjectId (Some pid)
             then (Inr (Inl (InvalidProjectId pid)),
                   updateAccount i (\<lambda>a. a\<lparr>projectPromise := None\<rparr>) w1)
             else
               (let c = (creds (accounts w1 ! i))
                          \<lparr>projectId := Some pid,
                           projectIdResolvedAt := Some (ResolvedISO (clock w1))\<rparr>
                in (Inl (AwaitProjectWrite pid),
                    emit (WriteFile (filePath (accounts w1 ! i)) c)
                      (updateAccount i
                         (\<lambda>a. a\<lparr>creds := c, projectPromise := Some (p, AwaitProjectWrite pid)\<rparr>)
                         w1))))"
| "project_step e w i p (AwaitProjectWrite pid) =
     (let w1 = tick e w
      in case writeFile_result e (io_count w) of
           Some err \<Rightarrow> (Inr (Inl err), updateAccount i (\<lambda>a. a\<lparr>projectPromise := None\<rparr>) w1)
         | None \<Rightarrow> (Inr (Inr pid), updateAccount i (\<lambda>a. a\<lparr>projectPromise := None\<rparr>) w1))"

fun projectRank :: "project_stage \<Rightarrow> nat" where
  "projectRank AwaitFetch = 1"
| "projectRank (AwaitProjectWrite pid) = 0"

lemma project_step_rank:
  "project_step e w i p stage = (Inl stage', w') \<Longrightarrow> projectRank stage' < projectRank stage"
  by (cases stage) (auto simp: Let_def split: sum.splits if_splits option.splits)

function await_project ::
  "env \<Rightarrow> world \<Rightarrow> nat \<Rightarrow> nat \<Rightarrow> project_stage \<Rightarrow> (error + string) \<times> world" where
  "await_project e w i p stage =
     (case project_step e w i p stage of
        (Inr outcome, w') \<Rightarrow> (outcome, w')
      | (Inl stage', w') \<Rightarrow> await_project e w' i p stage')"
  by pat_completeness auto
termination
  by (relation "measure (\<lambda>(e, w, i, p, stage). projectRank stage)")
     (auto dest: project_step_rank [OF sym])

declare await_project.simps [simp del]

definition ensureProjectId :: "env \<Rightarrow> world \<Rightarrow> nat \<Rightarrow> (error + string) \<times> world" where
  "ensureProjectId e w i =
     (let a = accounts w ! i
      in case (if isValidProjectId (projectId (creds a)) \<and> hasProjectIdRepairMarker (creds a)
               then map_option trim (projectId (creds a)) else None) of
           Some existing \<Rightarrow> (Inr existing, w)
         | None \<Rightarrow>
             (case projectPromise a of
                Some (p, stage) \<Rightarrow> await_project e w i p stage
              | None \<Rightarrow>
                  (let p = nextPromise w;
                       w1 = updateAccount i (\<lambda>a. a\<lparr>projectPromise := Some (p, AwaitFetch)\<rparr>)
                              ((emit (HttpFetchProjectId (access_token (creds a))) w)
                                 \<lparr>nextPromise := Suc p\<rparr>)
                   in await_project e w1 i p AwaitFetch)))"

subsection \<open>Credential lookup\<close>

record credentials_result =
  r_accessToken :: string
  r_projectId :: "string option"
  r_account :: account
  r_accountIndex :: nat

text \<open>\<^verbatim>\<open>account.creds.expiry_date < +new Date()\<close>; a missing expiry date compares false.\<close>

definition expired :: "credentials \<Rightarrow> int \<Rightarrow> bool" where
  "expired c now = (case expiry_date c of None \<Rightarrow> False | Some t \<Rightarrow> t < now)"

text \<open>\<^verbatim>\<open>if (account.refreshPromise) await account.refreshPromise\<close>; a rejection is thrown.\<close>

definition awaitRefreshPromise :: "env \<Rightarrow> world \<Rightarrow> nat \<Rightarrow> error option \<times> world" where
  "awaitRefreshPromise e w i =
     (case refreshPromise (accounts w ! i) of
        None \<Rightarrow> (None, w)
      | Some (p, stage) \<Rightarrow>
          (case await_refresh e w i p stage of
             (Inl err, w') \<Rightarrow> (Some err, w')
           | (Inr tok, w') \<Rightarrow> (None, w')))"

text \<open>\<^verbatim>\<open>if (account.creds.expiry_date < +new Date()) await this.refreshToken(account)\<close>.\<close>

definition refreshIfExpired :: "env \<Rightarrow> world \<Rightarrow> nat \<Rightarrow> error option \<times> world" where
  "refreshIfExpired e w i =
     (if expired (creds (accounts w ! i)) (clock w)
      then (case refreshToken e w i of
              (Inl err, w') \<Rightarrow> (Some err, w')
            | (Inr tok, w') \<Rightarrow> (None, w'))
      else (None, w))"


definition getCredentialsByIndex ::
  "env \<Rightarrow> world \<Rightarrow> int \<Rightarrow> string \<Rightarrow> (error + credentials_result) \<times> world" where
  "getCredentialsByIndex e w index grp =
     (if accounts w = [] then (Inl NoAccountsAvailable, w)
      else if index < 0 \<or> index \<ge> int (length (accounts w))
        then (Inl (InvalidAccountIndex index), w)
      else
        (let i = nat index
         in case awaitRefreshPromise e w i of
              (Some err, w1) \<Rightarrow> (Inl err, w1)
            | (None, w1) \<Rightarrow>
                (case refreshIfExpired e w1 i of
                   (Some err, w2) \<Rightarrow> (Inl err, w2)
                 | (None, w2) \<Rightarrow>
                     (case ensureProjectId e w2 i of
                        (Inl err, w3) \<Rightarrow> (Inl err, w3)
                      | (Inr pid, w3) \<Rightarrow>
                          (Inr \<lparr>r_accessToken = access_token (creds (accounts w3 ! i)),
                                r_projectId = projectId (creds (accounts w3 ! i)),
                                r_account = accounts w3 ! i,
                                r_accountIndex = i\<rparr>, w3)))))"

text \<open>
  \<^verbatim>\<open>normalizeQuotaGroup\<close>: the group \<^verbatim>\<open>claude\<close> when the trimmed lower-case text is that word,
  \<^verbatim>\<open>gemini\<close> otherwise.
\<close>

definition toLowerCase :: "string \<Rightarrow> string" where
  "toLowerCase s =
     map (\<lambda>c. if (65 :: nat) \<le> of_char c \<and> of_char c \<le> (90 :: nat)
              then char_of (of_char c + (32 :: nat)) else c) s"

definition normalizeQuotaGroup :: "string \<Rightarrow> quota_group" where
  "normalizeQuotaGroup grp = (if toLowerCase (trim grp) = ''claude'' then Claude else Gemini)"


subsection \<open>Notions for the statements about refreshes\<close>

text \<open>The refresh requests sent so far, in order.\<close>

fun isRefreshRequest :: "event \<Rightarrow> bool" where
  "isRefreshRequest (HttpRefreshToken rt) = True"
| "isRefreshRequest ev = False"

definition refreshRequests :: "world \<Rightarrow> event list" where
  "refreshRequests w = filter isRefreshRequest (events w)"





section \<open>UpstreamClient: account selection\<close>

definition getAccountKeyFromAccount :: "account \<Rightarrow> string" where
  "getAccountKeyFromAccount a =
     (if filePath a \<noteq> [] then basename (filePath a) else ''unknown-account'')"

record item =
  accountIndex :: int
  accountKey :: string
  remainingPercent :: "int option"
  resetTimeMs :: "int option"
  cooldownUntilMs :: int
  cooldownActive :: bool

record priorities =
  items :: "item list"
  allKnown :: bool
  allZeroKnown :: bool

text \<open>
  The loop of \<^verbatim>\<open>getAccountPrioritiesForModel\<close> over the accounts, from index \<open>i\<close> on, with
  its three accumulators \<^verbatim>\<open>knownCount\<close>, \<^verbatim>\<open>nonZeroKnownCount\<close> and \<^verbatim>\<open>items\<close>.
\<close>

fun accountLoop ::
  "(string \<rightharpoonup> quota_entry) option \<Rightarrow> int \<Rightarrow> bool \<Rightarrow> int set \<Rightarrow> nat \<Rightarrow> account list \<Rightarrow>
   nat \<times> nat \<times> item list \<Rightarrow> nat \<times> nat \<times> item list" where
  "accountLoop perModel now includeZero exclude i [] acc = acc"
| "accountLoop perModel now includeZero exclude i (account # rest) (knownCount, nonZeroKnownCount, its) =
     (if int i \<in> exclude
        then accountLoop perModel now includeZero exclude (Suc i) rest (knownCount, nonZeroKnownCount, its)
      else
        (let key = getAccountKeyFromAccount account;
             q = (case perModel of None \<Rightarrow> None | Some m \<Rightarrow> m key);
             pct = (case q of None \<Rightarrow> None | Some qe \<Rightarrow> q_remainingPercent qe);
             knownCount' = (if pct \<noteq> None then knownCount + 1 else knownCount);
             nonZeroKnownCount' =
               (case pct of None \<Rightarrow> nonZeroKnownCount
                | Some p \<Rightarrow> if p > 0 then nonZeroKnownCount + 1 else nonZeroKnownCount)
         in if \<not> includeZero \<and> pct = Some 0
              then accountLoop perModel now includeZero exclude (Suc i) rest
                     (knownCount', nonZeroKnownCount', its)
            else
              (let reset = (case q of None \<Rightarrow> None | Some qe \<Rightarrow> q_resetTimeMs qe);
                   cooldown =
                     (case q of None \<Rightarrow> 0
                      | Some qe \<Rightarrow> (case q_cooldownUntilMs qe of None \<Rightarrow> 0 | Some c \<Rightarrow> c))
               in accountLoop perModel now includeZero exclude (Suc i) rest
                    (knownCount', nonZeroKnownCount',
                     its @ [\<lparr>accountIndex = int i, accountKey = key, remainingPercent = pct,
                             resetTimeMs = reset, cooldownUntilMs = cooldown,
                             cooldownActive = (cooldown > now)\<rparr>]))))"

text \<open>
  The comparator given to \<^verbatim>\<open>items.sort\<close>. An unknown reset time is \<^verbatim>\<open>+Infinity\<close>; the
  differences \<^verbatim>\<open>-Infinity\<close> and \<^verbatim>\<open>+Infinity\<close> are written \<open>-1\<close> and \<open>1\<close> (a sort reads the
  sign only).
\<close>

definition compareItems :: "item \<Rightarrow> item \<Rightarrow> int" where
  "compareItems a b =
     (if cooldownActive a \<noteq> cooldownActive b then (if cooldownActive a then 1 else - 1)
      else
        (let aPct = (case remainingPercent a of Some p \<Rightarrow> p | None \<Rightarrow> - 1);
             bPct = (case remainingPercent b of Some p \<Rightarrow> p | None \<Rightarrow> - 1)
         in if aPct \<noteq> bPct then bPct - aPct
            else
              (case (resetTimeMs a, resetTimeMs b) of
                 (Some aReset, Some bReset) \<Rightarrow>
                   if aReset \<noteq> bReset then aReset - bReset else accountIndex a - accountIndex b
               | (Some aReset, None) \<Rightarrow> - 1
               | (None, Some bReset) \<Rightarrow> 1
               | (None, None) \<Rightarrow> accountIndex a - accountIndex b)))"

text \<open>
  \<^verbatim>\<open>Array.prototype.sort\<close> with a comparator: a stable sort, here by insertion. An element
  goes before the first one it does not compare greater than.
\<close>

fun insertBy :: "('a \<Rightarrow> 'a \<Rightarrow> int) \<Rightarrow> 'a \<Rightarrow> 'a list \<Rightarrow> 'a list" where
  "insertBy cmp x [] = [x]"
| "insertBy cmp x (y # ys) = (if cmp x y \<le> 0 then x # y # ys else y # insertBy cmp x ys)"

definition sortBy :: "('a \<Rightarrow> 'a \<Rightarrow> int) \<Rightarrow> 'a list \<Rightarrow> 'a list" where
  "sortBy cmp xs = foldr (insertBy cmp) xs []"

definition getAccountPrioritiesForModel ::
  "world \<Rightarrow> string \<Rightarrow> int option \<Rightarrow> bool \<Rightarrow> int set \<Rightarrow> priorities" where
  "getAccountPrioritiesForModel w modelId optNow includeZero excludeAccountIndices =
     (let now = (case optNow of Some n \<Rightarrow> n | None \<Rightarrow> clock w);
          perModel = modelQuotaByAccount w (trim modelId);
          (knownCount, nonZeroKnownCount, its) =
            accountLoop perModel now includeZero excludeAccountIndices 0 (accounts w) (0, 0, []);
          known = (length (accounts w) > 0 \<and> knownCount = length (accounts w))
      in \<lparr>items = sortBy compareItems its,
          allKnown = known,
          allZeroKnown = (known \<and> nonZeroKnownCount = 0)\<rparr>)"

subsection \<open>The order of selection, in the words of the specification\<close>

text \<open>
  Accounts in active cooldown last; then the remaining percentage, larger first, an unknown
  one counting as \<open>-1\<close>; then the reset time, sooner first, an unknown one counting as
  infinitely late; then the account index, smaller first.
\<close>

definition percentOrMinusOne :: "item \<Rightarrow> int" where
  "percentOrMinusOne a = (case remainingPercent a of Some p \<Rightarrow> p | None \<Rightarrow> - 1)"

fun resetsSooner :: "int option \<Rightarrow> int option \<Rightarrow> bool" where
  "resetsSooner (Some x) (Some y) = (x < y)"
| "resetsSooner (Some x) None = True"
| "resetsSooner None y = False"

definition ranksBefore :: "item \<Rightarrow> item \<Rightarrow> bool" where
  "ranksBefore a b \<longleftrightarrow>
     (\<not> cooldownActive a \<and> cooldownActive b) \<or>
     (cooldownActive a = cooldownActive b \<and>
        (percentOrMinusOne a > percentOrMinusOne b \<or>
         (percentOrMinusOne a = percentOrMinusOne b \<and>
            (resetsSooner (resetTimeMs a) (resetTimeMs b) \<or>
             (resetTimeMs a = resetTimeMs b \<and> accountIndex a < accountIndex b)))))"

text \<open>The annotated candidate that account \<open>i\<close> gives for a model at an instant.\<close>

definition candidate :: "world \<Rightarrow> string \<Rightarrow> int \<Rightarrow> nat \<Rightarrow> item" where
  "candidate w modelId now i =
     (let key = getAccountKeyFromAccount (accounts w ! i);
          q = (case modelQuotaByAccount w (trim modelId) of None \<Rightarrow> None | Some m \<Rightarrow> m key);
          cooldown = (case q of None \<Rightarrow> 0
                      | Some qe \<Rightarrow> (case q_cooldownUntilMs qe of None \<Rightarrow> 0 | Some c \<Rightarrow> c))
      in \<lparr>accountIndex = int i, accountKey = key,
          remainingPercent = (case q of None \<Rightarrow> None | Some qe \<Rightarrow> q_remainingPercent qe),
          resetTimeMs = (case q of None \<Rightarrow> None | Some qe \<Rightarrow> q_resetTimeMs qe),
          cooldownUntilMs = cooldown, cooldownActive = (cooldown > now)\<rparr>)"

subsection \<open>Auxiliary notions\<close>

text \<open>The item the loop builds for account \<open>a\<close> at index \<open>i\<close>, and the indices it keeps.\<close>

definition itemOf :: "(string \<rightharpoonup> quota_entry) option \<Rightarrow> int \<Rightarrow> nat \<Rightarrow> account \<Rightarrow> item" where
  "itemOf perModel now i a =
     (let key = getAccountKeyFromAccount a;
          q = (case perModel of None \<Rightarrow> None | Some m \<Rightarrow> m key);
          cooldown = (case q of None \<Rightarrow> 0
                      | Some qe \<Rightarrow> (case q_cooldownUntilMs qe of None \<Rightarrow> 0 | Some c \<Rightarrow> c))
      in \<lparr>accountIndex = int i, accountKey = key,
          remainingPercent = (case q of None \<Rightarrow> None | Some qe \<Rightarrow> q_remainingPercent qe),
          resetTimeMs = (case q of None \<Rightarrow> None | Some qe \<Rightarrow> q_resetTimeMs qe),
          cooldownUntilMs = cooldown, cooldownActive = (cooldown > now)\<rparr>)"

definition keeps :: "world \<Rightarrow> string \<Rightarrow> int \<Rightarrow> bool \<Rightarrow> int set \<Rightarrow> nat \<Rightarrow> bool" where
  "keeps w modelId now includeZero exclude j \<longleftrightarrow>
     int j \<notin> exclude \<and> (includeZero \<or> remainingPercent (candidate w modelId now j) \<noteq> Some 0)"

section \<open>UpstreamClient: parsing a retry delay\<close>

text \<open>
  Numbers are exact rationals here, not IEEE doubles: \<^verbatim>\<open>parseFloat\<close> gives the decimal value
  of the text, sums and products are exact, and \<^verbatim>\<open>NaN\<close> is \<^term>\<open>None\<close>.
\<close>

definition isDigit :: "char \<Rightarrow> bool" where
  "isDigit c \<longleftrightarrow> c \<in> set ''0123456789''"

definition isDigitOrDot :: "char \<Rightarrow> bool" where
  "isDigitOrDot c \<longleftrightarrow> isDigit c \<or> c = CHR ''.''"

definition digitValue :: "char \<Rightarrow> int" where
  "digitValue c = of_char c - 48"

definition digitsValue :: "string \<Rightarrow> int" where
  "digitsValue ds = foldl (\<lambda>acc c. 10 * acc + digitValue c) 0 ds"

text \<open>
  \<^verbatim>\<open>parseFloat\<close> on a text of digits and dots: the longest prefix that is a decimal literal
  (digits, digits with a dot, digits with a dot and digits, or a dot with digits).
\<close>

definition parseFloat :: "string \<Rightarrow> rat option" where
  "parseFloat s =
     (let ip = takeWhile isDigit s; r = dropWhile isDigit s
      in case r of
           c # r' \<Rightarrow>
             if c = CHR ''.'' then
               (let fp = takeWhile isDigit r'
                in if ip = [] \<and> fp = [] then None
                   else Some (of_int (digitsValue ip) + of_int (digitsValue fp) / 10 ^ length fp))
             else if ip = [] then None else Some (of_int (digitsValue ip))
         | [] \<Rightarrow> if ip = [] then None else Some (of_int (digitsValue ip)))"

text \<open>The alternation \<^verbatim>\<open>(ms|s|m|h)\<close> at the start of a string, tried in that order.\<close>

definition matchUnit :: "string \<Rightarrow> (string \<times> string) option" where
  "matchUnit s =
     (if startsWith s ''ms'' then Some (''ms'', drop 2 s)
      else if startsWith s ''s'' then Some (''s'', drop 1 s)
      else if startsWith s ''m'' then Some (''m'', drop 1 s)
      else if startsWith s ''h'' then Some (''h'', drop 1 s)
      else None)"

text \<open>
  The regular expression \<^verbatim>\<open>/([\d.]+)\s*(ms|s|m|h)/\<close> matched at the start of a string: the
  two groups and the rest of the string. Both repetitions are greedy, and giving characters
  back cannot help: a unit starts with none of the characters they take.
\<close>

definition matchAt :: "string \<Rightarrow> (string \<times> string \<times> string) option" where
  "matchAt s =
     (let num = takeWhile isDigitOrDot s;
          afterSpace = dropWhile isWhiteSpace (dropWhile isDigitOrDot s)
      in if num = [] then None
         else (case matchUnit afterSpace of
                 None \<Rightarrow> None
               | Some (u, rest) \<Rightarrow> Some (num, u, rest)))"

text \<open>\<^verbatim>\<open>re.exec\<close> on what is left of the string: the leftmost match.\<close>

fun exec :: "string \<Rightarrow> (string \<times> string \<times> string) option" where
  "exec [] = None"
| "exec (c # cs) = (case matchAt (c # cs) of Some m \<Rightarrow> Some m | None \<Rightarrow> exec cs)"

lemma matchUnit_shorter: "matchUnit s = Some (u, rest) \<Longrightarrow> length rest < length s"
  by (cases s) (auto simp: matchUnit_def split: if_splits)

lemma matchAt_shorter:
  assumes "matchAt s = Some (num, u, rest)"
  shows "length rest < length s"
proof -
  from assms
  have "matchUnit (dropWhile isWhiteSpace (dropWhile isDigitOrDot s)) = Some (u, rest)"
    by (auto simp: matchAt_def Let_def split: if_splits option.splits)
  from matchUnit_shorter [OF this] show ?thesis
    using length_dropWhile_le [of isWhiteSpace "dropWhile isDigitOrDot s"]
          length_dropWhile_le [of isDigitOrDot s] by simp
qed

lemma exec_shorter: "exec s = Some (num, u, rest) \<Longrightarrow> length rest < length s"
proof (induction s)
  case Nil
  then show ?case by simp
next
  case (Cons c cs)
  then show ?case
    by (cases "matchAt (c # cs)") (auto dest: matchAt_shorter)
qed

text \<open>
  The loop \<^verbatim>\<open>while ((m = re.exec(str)) !== null)\<close> of \<^verbatim>\<open>parseDurationMs\<close> on what is left
  of the string, with \<^verbatim>\<open>totalMs\<close> and \<^verbatim>\<open>matched\<close>. A match whose number is \<^verbatim>\<open>NaN\<close> sets
  \<^verbatim>\<open>matched\<close> and adds nothing.
\<close>

function scanLoop :: "string \<Rightarrow> rat \<times> bool \<Rightarrow> rat \<times> bool" where
  "scanLoop str (totalMs, matched) =
     (case exec str of
        None \<Rightarrow> (totalMs, matched)
      | Some (num, u, rest) \<Rightarrow>
          (case parseFloat num of
             None \<Rightarrow> scanLoop rest (totalMs, True)
           | Some v \<Rightarrow>
               scanLoop rest
                 (if u = ''ms'' then totalMs + v
                  else if u = ''s'' then totalMs + v * 1000
                  else if u = ''m'' then totalMs + v * 60 * 1000
                  else if u = ''h'' then totalMs + v * 60 * 60 * 1000
                  else totalMs, True)))"
  by pat_completeness auto
termination
  by (relation "measure (\<lambda>(str, acc). length str)") (auto dest: exec_shorter)

declare scanLoop.simps [simp del]

text \<open>\<^verbatim>\<open>Math.round\<close> rounds to the nearest integer, a half upwards.\<close>

definition Math_round :: "rat \<Rightarrow> int" where
  "Math_round x = \<lfloor>x + 1 / 2\<rfloor>"

definition parseDurationMs :: "string \<Rightarrow> int option" where
  "parseDurationMs durationStr =
     (if durationStr = [] then None
      else
        (let str = trim durationStr
         in if str = [] then None
            else
              (let (totalMs, matched) = scanLoop str (0, False)
               in if \<not> matched then None else Some (Math_round totalMs))))"

subsection \<open>The duration grammar, in the words of the specification\<close>









section \<open>UpstreamClient: the request path\<close>

subsection \<open>The retry hint of a 429 body\<close>

text \<open>
  Truthiness, property access (\<^term>\<open>None\<close> is \<^verbatim>\<open>undefined\<close>; only the properties a JSON
  object itself holds matter here) and \<^verbatim>\<open>String(v)\<close> of a JSON value.
\<close>

fun truthy :: "json \<Rightarrow> bool" where
  "truthy JNull = False"
| "truthy (JBool b) = b"
| "truthy (JNum n txt) = (n \<noteq> 0)"
| "truthy (JStr s) = (s \<noteq> [])"
| "truthy (JArr xs) = True"
| "truthy (JObj kvs) = True"

fun getProp :: "json \<Rightarrow> string \<Rightarrow> json option" where
  "getProp (JObj kvs) k = map_of kvs k"
| "getProp v k = None"

fun jsString :: "json \<Rightarrow> string" and joinElements :: "json list \<Rightarrow> string" where
  "jsString JNull = ''null''"
| "jsString (JBool b) = (if b then ''true'' else ''false'')"
| "jsString (JNum n txt) = txt"
| "jsString (JStr s) = s"
| "jsString (JArr xs) = joinElements xs"
| "jsString (JObj kvs) = ''[object Object]''"
| "joinElements [] = []"
| "joinElements (x # xs) =
     (if x = JNull then [] else jsString x) @ (if xs = [] then [] else CHR '','' # joinElements xs)"

text \<open>
  The predicate \<^verbatim>\<open>d["@type"]?.includes("RetryInfo")\<close>: \<^term>\<open>None\<close> when it throws (on a
  \<^verbatim>\<open>null\<close> entry, or on a type that has no \<^verbatim>\<open>includes\<close>).
\<close>

definition isRetryInfo :: "json \<Rightarrow> bool option" where
  "isRetryInfo d =
     (if d = JNull then None
      else (case getProp d ''@type'' of
              None \<Rightarrow> Some False
            | Some JNull \<Rightarrow> Some False
            | Some (JStr t) \<Rightarrow> Some (str_includes t ''RetryInfo'')
            | Some (JArr ts) \<Rightarrow> Some (JStr ''RetryInfo'' \<in> set ts)
            | Some other \<Rightarrow> None))"

text \<open>The predicate \<^verbatim>\<open>d.metadata?.quotaResetDelay\<close>: the value it reads.\<close>

definition quotaResetDelayOf :: "json \<Rightarrow> json option option" where
  "quotaResetDelayOf d =
     (if d = JNull then None
      else (case getProp d ''metadata'' of
              None \<Rightarrow> Some None
            | Some JNull \<Rightarrow> Some None
            | Some m \<Rightarrow> Some (getProp m ''quotaResetDelay'')))"

text \<open>
  \<^verbatim>\<open>details.find\<close> with each predicate: \<^term>\<open>None\<close> when the predicate throws before a match,
  \<^term>\<open>Some None\<close> when nothing matches.
\<close>

fun findRetryInfo :: "json list \<Rightarrow> json option option" where
  "findRetryInfo [] = Some None"
| "findRetryInfo (d # ds) =
     (case isRetryInfo d of
        None \<Rightarrow> None
      | Some True \<Rightarrow> Some (Some d)
      | Some False \<Rightarrow> findRetryInfo ds)"

fun findQuotaResetDelay :: "json list \<Rightarrow> json option option" where
  "findQuotaResetDelay [] = Some None"
| "findQuotaResetDelay (d # ds) =
     (case quotaResetDelayOf d of
        None \<Rightarrow> None
      | Some (Some v) \<Rightarrow> if truthy v then Some (Some v) else findQuotaResetDelay ds
      | Some None \<Rightarrow> findQuotaResetDelay ds)"

definition parseRetryDelayMs :: "env \<Rightarrow> string \<Rightarrow> int option" where
  "parseRetryDelayMs e errText =
     (case JSON_parse e errText of
        None \<Rightarrow> None
      | Some JNull \<Rightarrow> None
      | Some errObj \<Rightarrow>
          (let details =
                 (case getProp errObj ''error'' of
                    None \<Rightarrow> None
                  | Some JNull \<Rightarrow> None
                  | Some err \<Rightarrow> getProp err ''details'')
           in case (case details of None \<Rightarrow> JArr [] | Some d \<Rightarrow> if truthy d then d else JArr []) of
                JArr ds \<Rightarrow>
                  (case findRetryInfo ds of
                     None \<Rightarrow> None
                   | Some retryInfo \<Rightarrow>
                       (case (case retryInfo of
                                None \<Rightarrow> None
                              | Some d \<Rightarrow>
                                  (case getProp d ''retryDelay'' of
                                     None \<Rightarrow> None
                                   | Some v \<Rightarrow>
                                       if truthy v then parseDurationMs (jsString v) else None)) of
                          Some ms \<Rightarrow> Some ms
                        | None \<Rightarrow>
                            (case findQuotaResetDelay ds of
                               None \<Rightarrow> None
                             | Some None \<Rightarrow> None
                             | Some (Some metaDelay) \<Rightarrow> parseDurationMs (jsString metaDelay))))
              | other \<Rightarrow> None))"

subsection \<open>The quota cache and the cached errors\<close>

definition emptyQuota :: quota_entry where
  "emptyQuota = \<lparr>q_remainingPercent = None, q_resetTimeMs = None, q_cooldownUntilMs = None,
     q_updatedAtMs = None\<rparr>"

definition setCooldownUntil :: "string \<Rightarrow> string \<Rightarrow> int \<Rightarrow> world \<Rightarrow> world" where
  "setCooldownUntil modelId accKey cooldownUntil w =
     (let key = trim modelId
      in if key = [] then w
         else
           (let perModel = (case modelQuotaByAccount w key of None \<Rightarrow> Map.empty | Some m \<Rightarrow> m);
                prev = (case perModel accKey of None \<Rightarrow> emptyQuota | Some q \<Rightarrow> q)
            in w\<lparr>modelQuotaByAccount :=
                   (modelQuotaByAccount w)
                     (key \<mapsto> perModel(accKey \<mapsto> prev\<lparr>q_cooldownUntilMs := Some cooldownUntil\<rparr>))\<rparr>))"

definition cacheLastErrorResponse :: "string \<Rightarrow> response \<Rightarrow> world \<Rightarrow> world" where
  "cacheLastErrorResponse modelId resp w =
     (let key = trim modelId
      in if key = [] then w
         else w\<lparr>lastErrorByModel :=
                 (lastErrorByModel w)
                   (key \<mapsto> \<lparr>c_status = status resp, c_headers = headers resp,
                            c_bodyText = (case bodyText resp of None \<Rightarrow> [] | Some t \<Rightarrow> t),
                            c_cachedAtMs = clock w\<rparr>)\<rparr>)"

text \<open>
  The constructor \<^verbatim>\<open>new Response(body, {status, headers})\<close> with a body that is a string: by
  the Fetch standard it throws a \<^verbatim>\<open>RangeError\<close> for a status outside 200 to 599, and a
  \<^verbatim>\<open>TypeError\<close> for a status that allows no body (204, 205, 304; 101 and 103 are out of
  range already). Header names and values that come from a response are valid.
\<close>

definition newResponse :: "string \<Rightarrow> int \<Rightarrow> (string \<times> string) list \<Rightarrow> response option" where
  "newResponse body st hs =
     (if st < 200 \<or> 599 < st \<or> st = 204 \<or> st = 205 \<or> st = 304 then None
      else Some \<lparr>status = st, headers = hs, bodyText = Some body\<rparr>)"

definition getCachedErrorResponse :: "world \<Rightarrow> string \<Rightarrow> response option" where
  "getCachedErrorResponse w modelId =
     (let key = trim modelId
      in if key = [] then None
         else (case lastErrorByModel w key of
                 None \<Rightarrow> None
               | Some cached \<Rightarrow>
                   newResponse (c_bodyText cached)
                     (if c_status cached = 0 then 500 else c_status cached) (c_headers cached)))"

subsection \<open>\<^verbatim>\<open>callV1Internal\<close>\<close>

definition ok :: "response \<Rightarrow> bool" where
  "ok resp \<longleftrightarrow> 200 \<le> status resp \<and> status resp \<le> 299"

definition getQuotaGroupFromModel :: "string \<Rightarrow> string" where
  "getQuotaGroupFromModel model =
     (if str_includes (toLowerCase model) ''claude'' then ''claude'' else ''gemini'')"

text \<open>
  The options of a call that the dispatcher reads: \<^verbatim>\<open>buildBody\<close> (absent when it is not a
  function; it may throw), \<^verbatim>\<open>group\<close> and \<^verbatim>\<open>model\<close>. The query string and the headers are
  handed to the HTTP client as they are.
\<close>

record call_options =
  opt_buildBody :: "(string option \<Rightarrow> error + string) option"
  opt_group :: "string option"
  opt_model :: "string option"

text \<open>\<^verbatim>\<open>this.sleep(ms)\<close>, awaited: the timer fires after the delay, or later.\<close>

definition sleep :: "env \<Rightarrow> int \<Rightarrow> world \<Rightarrow> world" where
  "sleep e ms w = tick e ((emit (Sleep ms) w)\<lparr>clock := clock w + max 0 ms\<rparr>)"

text \<open>\<^verbatim>\<open>httpClient.callV1Internal\<close>, awaited: a response, or a network error thrown.\<close>

definition httpCall ::
  "env \<Rightarrow> world \<Rightarrow> string \<Rightarrow> string \<Rightarrow> string \<Rightarrow> (error + response) \<times> world" where
  "httpCall e w method accessToken requestBody =
     (callV1Internal_result e (io_count w),
      tick e (emit (HttpCallV1Internal method accessToken requestBody) w))"

text \<open>What stays the same over the attempts of one call, and what the loop carries along.\<close>

record call_context =
  cx_method :: string
  cx_quotaGroup :: string
  cx_modelId :: string
  cx_buildBody :: "string option \<Rightarrow> error + string"
  cx_maxAttempts :: nat

record loop_state =
  lastResponse :: "response option"
  lastNetworkError :: "error option"
  triedAccountIndices :: "int set"

datatype step_result =
    Done "error + response"
  | Break loop_state
  | Continue loop_state

text \<open>
  A 429 arrived from the account named \<open>accountName\<close>, in the iteration that read the clock
  as \<open>now\<close>: the rest of the loop body.
\<close>

definition on429 ::
  "env \<Rightarrow> call_context \<Rightarrow> loop_state \<Rightarrow> int \<Rightarrow> string \<Rightarrow> string \<Rightarrow> string \<Rightarrow> response \<Rightarrow>
   world \<Rightarrow> step_result \<times> world" where
  "on429 e cx st now accountName accessToken requestBody resp w =
     (let st1 = st\<lparr>lastResponse := Some resp\<rparr>;
          w1 = (if cx_modelId cx \<noteq> [] then cacheLastErrorResponse (cx_modelId cx) resp w else w);
          errorText = (case bodyText resp of None \<Rightarrow> [] | Some t \<Rightarrow> t);
          retryMs = parseRetryDelayMs e errorText;
          w2 = (if cx_modelId cx \<noteq> []
                then setCooldownUntil (cx_modelId cx) accountName
                       (now + (case retryMs of Some r \<Rightarrow> max 0 r | None \<Rightarrow> FIXED_RETRY_DELAY_MS e)) w1
                else w1)
      in if cx_maxAttempts cx = 1 then
           (if (case retryMs of Some r \<Rightarrow> r > 5000 | None \<Rightarrow> False) then (Done (Inr resp), w2)
            else
              (let delay = (case retryMs of None \<Rightarrow> FIXED_RETRY_DELAY_MS e
                            | Some r \<Rightarrow> max 0 (r + 200));
                   w3 = sleep e delay w2
               in case httpCall e w3 (cx_method cx) accessToken requestBody of
                    (Inl netErr2, w4) \<Rightarrow> (Done (Inl netErr2), w4)
                  | (Inr retryResp, w4) \<Rightarrow>
                      if ok retryResp then (Done (Inr retryResp), w4)
                      else (Done (Inr retryResp),
                            if cx_modelId cx \<noteq> []
                            then cacheLastErrorResponse (cx_modelId cx) retryResp w4 else w4)))
         else
           (case retryMs of
              None \<Rightarrow> (Continue st1, sleep e (FIXED_RETRY_DELAY_MS e) w2)
            | Some r \<Rightarrow> (Continue st1, w2)))"

text \<open>A response arrived: success, an error that is passed through, or a 429.\<close>

definition onResponse ::
  "env \<Rightarrow> call_context \<Rightarrow> loop_state \<Rightarrow> int \<Rightarrow> string \<Rightarrow> string \<Rightarrow> string \<Rightarrow> response \<Rightarrow>
   world \<Rightarrow> step_result \<times> world" where
  "onResponse e cx st now accountName accessToken requestBody resp w =
     (if ok resp then (Done (Inr resp), w)
      else if status resp \<noteq> 429 then
        (Done (Inr resp),
         if cx_modelId cx \<noteq> [] then cacheLastErrorResponse (cx_modelId cx) resp w else w)
      else on429 e cx st now accountName accessToken requestBody resp w)"

text \<open>The choice of the account at the start of an iteration.\<close>

datatype pick_result = Picked int | NoCandidate | AllCooling

definition pickAccount :: "call_context \<Rightarrow> loop_state \<Rightarrow> int \<Rightarrow> world \<Rightarrow> pick_result" where
  "pickAccount cx st now w =
     (if cx_modelId cx \<noteq> [] then
        (case items (getAccountPrioritiesForModel w (cx_modelId cx) (Some now) False
                       (triedAccountIndices st)) of
           [] \<Rightarrow> NoCandidate
         | first # others \<Rightarrow>
             if list_all cooldownActive (first # others) then AllCooling
             else Picked (accountIndex first))
      else Picked (getCurrentAccountIndex w (normalizeQuotaGroup (cx_quotaGroup cx))))"

text \<open>One iteration of the attempt loop.\<close>

definition attempt :: "env \<Rightarrow> call_context \<Rightarrow> loop_state \<Rightarrow> world \<Rightarrow> step_result \<times> world" where
  "attempt e cx st w =
     (let now = clock w
      in case pickAccount cx st now w of
           NoCandidate \<Rightarrow> (Break st, w)
         | AllCooling \<Rightarrow>
             (case getCachedErrorResponse w (cx_modelId cx) of
                Some cached \<Rightarrow> (Done (Inr cached), w)
              | None \<Rightarrow>
                  (case lastResponse st of
                     Some resp \<Rightarrow> (Done (Inr resp), w)
                   | None \<Rightarrow>
                       (case lastNetworkError st of
                          Some err \<Rightarrow> (Done (Inl err), w)
                        | None \<Rightarrow> (Done (Inl (AllAccountsInCooldown (cx_modelId cx))), w))))
         | Picked pickedIndex \<Rightarrow>
             (let st1 = st\<lparr>triedAccountIndices := insert pickedIndex (triedAccountIndices st)\<rparr>
              in case getCredentialsByIndex e w pickedIndex (cx_quotaGroup cx) of
                   (Inl err, w1) \<Rightarrow> (Done (Inl err), w1)
                 | (Inr credentials, w1) \<Rightarrow>
                     (let accountName = getAccountKeyFromAccount (r_account credentials)
                      in case cx_buildBody cx (r_projectId credentials) of
                           Inl err \<Rightarrow> (Done (Inl err), w1)
                         | Inr requestBody \<Rightarrow>
                             (case httpCall e w1 (cx_method cx) (r_accessToken credentials)
                                     requestBody of
                                (Inr resp, w2) \<Rightarrow>
                                  onResponse e cx st1 now accountName
                                    (r_accessToken credentials) requestBody resp w2
                              | (Inl netErr, w2) \<Rightarrow>
                                  (let st2 = st1\<lparr>lastNetworkError := Some netErr\<rparr>;
                                       w3 = sleep e (FIXED_RETRY_DELAY_MS e) w2
                                   in if cx_maxAttempts cx = 1 then
                                        (case httpCall e w3 (cx_method cx)
                                                (r_accessToken credentials) requestBody of
                                           (Inl netErr2, w4) \<Rightarrow> (Done (Inl netErr2), w4)
                                         | (Inr resp, w4) \<Rightarrow>
                                             onResponse e cx st2 now accountName
                                               (r_accessToken credentials) requestBody resp w4)
                                      else (Continue st2, w3))))))"

text \<open>
  The loop \<^verbatim>\<open>for (attempts = 0; attempts < maxAttempts; attempts++)\<close>, by the number of
  iterations left: \<^term>\<open>Inl\<close> when an iteration returns or throws, \<^term>\<open>Inr\<close> when the loop
  ends, by \<^verbatim>\<open>break\<close> or after its last iteration.
\<close>

fun attemptLoop ::
  "env \<Rightarrow> call_context \<Rightarrow> nat \<Rightarrow> loop_state \<Rightarrow> world \<Rightarrow> ((error + response) + loop_state) \<times> world" where
  "attemptLoop e cx 0 st w = (Inr st, w)"
| "attemptLoop e cx (Suc n) st w =
     (case attempt e cx st w of
        (Done r, w') \<Rightarrow> (Inl r, w')
      | (Break st', w') \<Rightarrow> (Inr st', w')
      | (Continue st', w') \<Rightarrow> attemptLoop e cx n st' w')"

text \<open>What follows the loop.\<close>

definition afterLoop :: "call_context \<Rightarrow> loop_state \<Rightarrow> world \<Rightarrow> error + response" where
  "afterLoop cx st w =
     (case lastResponse st of
        Some resp \<Rightarrow> Inr resp
      | None \<Rightarrow>
          (case lastNetworkError st of
             Some err \<Rightarrow> Inl err
           | None \<Rightarrow>
               (case (if cx_modelId cx \<noteq> [] then getCachedErrorResponse w (cx_modelId cx)
                      else None) of
                  Some cached \<Rightarrow> Inr cached
                | None \<Rightarrow> Inl (UpstreamExhausted (cx_method cx) 500))))"

text \<open>
  The single attempt of the fast-fail gate when every account is known to be at 0 percent
  and no cached error can be returned.
\<close>

definition fastFailAttempt ::
  "env \<Rightarrow> call_context \<Rightarrow> item list \<Rightarrow> world \<Rightarrow> (error + response) \<times> world" where
  "fastFailAttempt e cx snapshotItems w =
     (case snapshotItems of
        [] \<Rightarrow> (Inl (NoAccountsForModel (cx_modelId cx)), w)
      | pick # others \<Rightarrow>
          (case getCredentialsByIndex e w (accountIndex pick) (cx_quotaGroup cx) of
             (Inl err, w1) \<Rightarrow> (Inl err, w1)
           | (Inr credentials, w1) \<Rightarrow>
               (case cx_buildBody cx (r_projectId credentials) of
                  Inl err \<Rightarrow> (Inl err, w1)
                | Inr requestBody \<Rightarrow>
                    (case httpCall e w1 (cx_method cx) (r_accessToken credentials) requestBody of
                       (Inl netErr, w2) \<Rightarrow> (Inl netErr, w2)
                     | (Inr resp, w2) \<Rightarrow>
                         (Inr resp,
                          if \<not> ok resp then cacheLastErrorResponse (cx_modelId cx) resp w2
                          else w2)))))"

text \<open>
  \<^verbatim>\<open>callV1Internal\<close>, from the end of its wait for the initial quota refresh: the state is
  the one the call finds when that wait is over.
\<close>

definition callV1Internal ::
  "env \<Rightarrow> world \<Rightarrow> string \<Rightarrow> call_options \<Rightarrow> (error + response) \<times> world" where
  "callV1Internal e w method options =
     (case opt_buildBody options of
        None \<Rightarrow> (Inl BuildBodyRequired, w)
      | Some buildBody \<Rightarrow>
          (let model = (case opt_model options of None \<Rightarrow> [] | Some m \<Rightarrow> m);
               groupOrModel = (case opt_group options of
                                 None \<Rightarrow> model
                               | Some g \<Rightarrow> if g = [] then model else g);
               cx = \<lparr>cx_method = method,
                     cx_quotaGroup = getQuotaGroupFromModel groupOrModel,
                     cx_modelId = trim model,
                     cx_buildBody = buildBody,
                     cx_maxAttempts = max 1 (length (accounts w))\<rparr>;
               snapshot = getAccountPrioritiesForModel w (cx_modelId cx) (Some (clock w)) True {}
           in if cx_modelId cx \<noteq> [] \<and> allZeroKnown snapshot then
                (case getCachedErrorResponse w (cx_modelId cx) of
                   Some cached \<Rightarrow> (Inr cached, w)
                 | None \<Rightarrow> fastFailAttempt e cx (items snapshot) w)
              else
                (case attemptLoop e cx (cx_maxAttempts cx)
                        \<lparr>lastResponse = None, lastNetworkError = None, triedAccountIndices = {}\<rparr> w of
                   (Inl r, w') \<Rightarrow> (r, w')
                 | (Inr st, w') \<Rightarrow> (afterLoop cx st w', w'))))"

section \<open>Concrete environments and states\<close>

text \<open>An environment in which every network operation fails and file writes succeed.\<close>

definition env0 :: env where
  "env0 = \<lparr>FIXED_RETRY_DELAY_MS = 1200, elapsed = (\<lambda>_. 0),
     refreshToken_result = (\<lambda>_. Inl (External ''offline'')),
     fetchProjectId_result = (\<lambda>_. Inl (External ''offline'')),
     writeFile_result = (\<lambda>_. None),
     callV1Internal_result = (\<lambda>_. Inl (External ''offline'')),
     JSON_parse = (\<lambda>_. None)\<rparr>"

definition creds0 :: credentials where
  "creds0 = \<lparr>access_token = ''tok'', refresh_token = ''ref'', expiry_date = Some 1000,
     email = None, projectId = Some ''p'', projectIdResolvedAt = Some (ResolvedISO 0)\<rparr>"

definition acct :: "string \<Rightarrow> account" where
  "acct p = \<lparr>filePath = p, creds = creds0, refreshPromise = None, refreshTimer = None,
     projectPromise = None\<rparr>"

definition world_of :: "account list \<Rightarrow> int \<Rightarrow> int \<Rightarrow> world" where
  "world_of as c g = \<lparr>accounts = as, claudeIndex = c, geminiIndex = g,
     modelQuotaByAccount = Map.empty, lastErrorByModel = Map.empty,
     clock = 0, io_count = 0, events = [], nextPromise = 0\<rparr>"

definition quota :: "int option \<Rightarrow> int option \<Rightarrow> int option \<Rightarrow> quota_entry" where
  "quota p r c =
     \<lparr>q_remainingPercent = p, q_resetTimeMs = r, q_cooldownUntilMs = c, q_updatedAtMs = None\<rparr>"

text \<open>
  Four accounts and their quota for the model \<^verbatim>\<open>m\<close>: the first at 40 percent and cooling down
  until instant 2000, the second at 0 percent, the third at 60 percent, the fourth unknown.
\<close>

definition pool4 :: world where
  "pool4 =
     (world_of [acct ''auths/a.json'', acct ''auths/b.json'', acct ''auths/c.json'',
                acct ''auths/d.json''] 0 0)
     \<lparr>modelQuotaByAccount :=
        [''m'' \<mapsto> [''a.json'' \<mapsto> quota (Some 40) (Some 500) (Some 2000),
                   ''b.json'' \<mapsto> quota (Some 0) None None,
                   ''c.json'' \<mapsto> quota (Some 60) None None]]\<rparr>"





section \<open>Deleting an account\<close>

lemma findIndex_Some:
  "findIndex P xs = Some i \<Longrightarrow> i < length xs \<and> P (xs ! i) \<and> (\<forall>j<i. \<not> P (xs ! j))"
proof (induction xs arbitrary: i)
  case Nil
  then show ?case by simp
next
  case (Cons x xs)
  show ?case
  proof (cases "P x")
    case True
    with Cons.prems show ?thesis by simp
  next
    case False
    with Cons.prems obtain k where k: "findIndex P xs = Some k" "i = Suc k"
      by (auto split: option.splits)
    from Cons.IH [OF k(1)] False k(2) show ?thesis
      by (auto simp: nth_Cons split: nat.splits)
  qed
qed

lemma findIndex_None: "findIndex P xs = None \<longleftrightarrow> (\<forall>x\<in>set xs. \<not> P x)"
  by (induction xs) (auto split: option.splits)

lemma splice1_length: "i < length xs \<Longrightarrow> length (splice1 i xs) = length xs - 1"
  by (simp add: splice1_def)

lemma splice1_nth_before: "j < i \<Longrightarrow> i < length xs \<Longrightarrow> splice1 i xs ! j = xs ! j"
  by (simp add: splice1_def nth_append)

lemma splice1_nth_after: "i \<le> j \<Longrightarrow> Suc j < length xs \<Longrightarrow> splice1 i xs ! j = xs ! Suc j"
  by (simp add: splice1_def nth_append min_def)

lemma accounts_adjust [simp]: "accounts (adjustCurrentIndex i g w) = accounts w"
  by (cases g) (simp_all add: adjustCurrentIndex_def Let_def)

lemma adjust_other:
  "g \<noteq> g' \<Longrightarrow> getCurrentAccountIndex (adjustCurrentIndex i g w) g' = getCurrentAccountIndex w g'"
  by (cases g; cases g') (simp_all add: adjustCurrentIndex_def Let_def)

lemma adjust_same:
  "getCurrentAccountIndex (adjustCurrentIndex i g w) g =
     (let current = getCurrentAccountIndex w g in
      if accounts w = [] then 0
      else if int i < current then max 0 (current - 1)
      else if int i = current then min current (int (length (accounts w)) - 1)
      else current)"
  by (cases g) (simp_all add: adjustCurrentIndex_def Let_def)

lemma delete_found_eq:
  assumes "sanitizeCredentialFileName fileName = Inr safeName"
    and "findIndex (\<lambda>a. basename (filePath a) = safeName) (accounts w) = Some i"
  shows "deleteAccountByFile e w fileName =
    (Inr True, adjustCurrentIndex i Gemini (adjustCurrentIndex i Claude
       ((tick e (emit (Unlink (filePath (accounts w ! i))) w))\<lparr>accounts := splice1 i (accounts w)\<rparr>)))"
  using assms by (simp add: deleteAccountByFile_def Let_def tick_def emit_def)

lemma delete_found:
  assumes "sanitizeCredentialFileName fileName = Inr safeName"
    and "findIndex (\<lambda>a. basename (filePath a) = safeName) (accounts w) = Some i"
  shows "fst (deleteAccountByFile e w fileName) = Inr True"
    and "accounts (snd (deleteAccountByFile e w fileName)) = splice1 i (accounts w)"
    and "getCurrentAccountIndex (snd (deleteAccountByFile e w fileName)) g =
      (let current = getCurrentAccountIndex w g in
      if splice1 i (accounts w) = [] then 0
      else if int i < current then max 0 (current - 1)
      else if int i = current then min current (int (length (splice1 i (accounts w))) - 1)
      else current)"
proof -
  note eq = delete_found_eq [OF assms, of e]
  show "fst (deleteAccountByFile e w fileName) = Inr True" by (simp add: eq)
  show "accounts (snd (deleteAccountByFile e w fileName)) = splice1 i (accounts w)"
    by (simp add: eq)
  show "getCurrentAccountIndex (snd (deleteAccountByFile e w fileName)) g =
      (let current = getCurrentAccountIndex w g in
      if splice1 i (accounts w) = [] then 0
      else if int i < current then max 0 (current - 1)
      else if int i = current then min current (int (length (splice1 i (accounts w))) - 1)
      else current)"
  proof -
    define w2 where "w2 = (tick e (emit (Unlink (filePath (accounts w ! i))) w))\<lparr>accounts := splice1 i (accounts w)\<rparr>"
    have w2: "accounts w2 = splice1 i (accounts w)" "getCurrentAccountIndex w2 g = getCurrentAccountIndex w g"
      by (cases g; simp add: w2_def tick_def emit_def)+
    have w2': "getCurrentAccountIndex w2 g' = getCurrentAccountIndex w g'" for g'
      by (cases g') (simp_all add: w2_def tick_def emit_def)
    show ?thesis
      by (cases g)
        (simp_all add: eq w2_def [symmetric] adjust_same adjust_other w2(1) w2' Let_def
          del: getCurrentAccountIndex.simps)
  qed
qed

text \<open>
  Claim C7, as the code has it. When \<^verbatim>\<open>deleteAccountByFile\<close> removes the account at slot
  \<open>i\<close> and at least one account survives, the current index of each quota group is
  unchanged when it is below \<open>i\<close>, one less when it is above \<open>i\<close>, and clamped to the last
  surviving slot when it is \<open>i\<close>; when no account survives, the index is reset to 0 (this
  is where the claim as stated fails: it asks for \<open>newLength - 1\<close>). The pointer does not
  skip a surviving account: an in-range index other than \<open>i\<close> still points to the same
  account, and the index \<open>i\<close>, unless it was the last slot, points to the account that
  followed the removed one.
\<close>

theorem deleteAccountByFile_adjusts_current_index:
  assumes "sanitizeCredentialFileName fileName = Inr safeName"
    and "findIndex (\<lambda>a. basename (filePath a) = safeName) (accounts w) = Some i"
    and "deleteAccountByFile e w fileName = (r, w')"
    and "cur = getCurrentAccountIndex w g" and "cur' = getCurrentAccountIndex w' g"
  shows "r = Inr True \<and> accounts w' = splice1 i (accounts w) \<and>
         (if accounts w' = [] then cur' = 0
          else if cur < int i then cur' = cur
          else if int i < cur then cur' = cur - 1
          else cur' = min cur (int (length (accounts w')) - 1)) \<and>
         (if 0 \<le> cur \<and> cur < int (length (accounts w)) \<and> cur \<noteq> int i
            then accounts w' ! nat cur' = accounts w ! nat cur
          else if cur = int i \<and> Suc i < length (accounts w)
            then accounts w' ! nat cur' = accounts w ! Suc i
          else True)"
proof -
  from findIndex_Some [OF assms(2)] have i: "i < length (accounts w)" by simp
  have r: "r = Inr True" and a: "accounts w' = splice1 i (accounts w)"
    using delete_found(1,2) [OF assms(1,2), of e] assms(3) by (simp_all only: fst_conv snd_conv)
  have c: "cur' = (if splice1 i (accounts w) = [] then 0
      else if int i < cur then max 0 (cur - 1)
      else if int i = cur then min cur (int (length (splice1 i (accounts w))) - 1)
      else cur)"
    using delete_found(3) [OF assms(1,2), of e g] assms(3,4,5) by (simp only: Let_def snd_conv)
  have len: "length (splice1 i (accounts w)) = length (accounts w) - 1"
    using i by (rule splice1_length)
  have idx: "(if accounts w' = [] then cur' = 0
          else if cur < int i then cur' = cur
          else if int i < cur then cur' = cur - 1
          else cur' = min cur (int (length (accounts w')) - 1))"
    unfolding a c by auto
  have ne: "splice1 i (accounts w) \<noteq> []" if "2 \<le> length (accounts w)"
  proof -
    from that len have "0 < length (splice1 i (accounts w))" by simp
    then show ?thesis by simp
  qed
  have keep: "accounts w' ! nat cur' = accounts w ! nat cur"
    if "0 \<le> cur" "cur < int (length (accounts w))" "cur \<noteq> int i"
  proof (cases "cur < int i")
    case True
    then have "2 \<le> length (accounts w)" using i that by simp
    with True ne have "cur' = cur" unfolding c by simp
    moreover have "splice1 i (accounts w) ! nat cur = accounts w ! nat cur"
      using True that i by (intro splice1_nth_before) simp_all
    ultimately show ?thesis by (simp add: a)
  next
    case False
    with that have gt: "int i < cur" by simp
    then have "2 \<le> length (accounts w)" using i that by simp
    with gt ne have c': "cur' = cur - 1" unfolding c by simp
    have "splice1 i (accounts w) ! nat (cur - 1) = accounts w ! Suc (nat (cur - 1))"
      using gt that i by (intro splice1_nth_after) simp_all
    moreover have "Suc (nat (cur - 1)) = nat cur" using gt by simp
    ultimately show ?thesis by (simp add: a c')
  qed
  have nxt: "accounts w' ! nat cur' = accounts w ! Suc i"
    if "cur = int i" "Suc i < length (accounts w)"
  proof -
    have "2 \<le> length (accounts w)" using that by simp
    with ne have "cur' = int i" unfolding c using that len by simp
    moreover have "splice1 i (accounts w) ! i = accounts w ! Suc i"
      using that by (intro splice1_nth_after) simp_all
    ultimately show ?thesis by (simp add: a)
  qed
  from keep nxt have ptr: "(if 0 \<le> cur \<and> cur < int (length (accounts w)) \<and> cur \<noteq> int i
            then accounts w' ! nat cur' = accounts w ! nat cur
          else if cur = int i \<and> Suc i < length (accounts w)
            then accounts w' ! nat cur' = accounts w ! Suc i
          else True)"
    by simp
  from r a idx ptr show ?thesis by blast
qed


text \<open>
  Claim C10. A name that passes \<^verbatim>\<open>sanitizeCredentialFileName\<close> and is the base name of no
  loaded account makes \<^verbatim>\<open>deleteAccountByFile\<close> return \<^verbatim>\<open>false\<close> and leave the whole state
  as it was: the account list with every account's credentials, timers and promises, both
  current indices, and no file is unlinked.
\<close>

theorem deleteAccountByFile_unknown_name_is_noop:
  assumes "sanitizeCredentialFileName fileName = Inr safeName"
    and "\<forall>a\<in>set (accounts w). basename (filePath a) \<noteq> safeName"
  shows "deleteAccountByFile e w fileName = (Inr False, w)"
proof -
  from assms(2) have "findIndex (\<lambda>a. basename (filePath a) = safeName) (accounts w) = None"
    by (simp add: findIndex_None)
  with assms(1) show ?thesis by (simp add: deleteAccountByFile_def)
qed

lemma sanitize_a_json: "sanitizeCredentialFileName ''a.json'' = Inr ''a.json''"
  by (simp add: sanitizeCredentialFileName_def trim_def isWhiteSpace_def endsWith_def)

lemma sanitize_c_json: "sanitizeCredentialFileName ''c.json'' = Inr ''c.json''"
  by (simp add: sanitizeCredentialFileName_def trim_def isWhiteSpace_def endsWith_def)

lemma basename_auths [simp]:
  "basename ''auths/a.json'' = ''a.json''" "basename ''auths/b.json'' = ''b.json''"
  "basename ''auths/c.json'' = ''c.json''"
  by (simp_all add: basename_def)

text \<open>Claim C10 at a pool of two accounts and the name \<^verbatim>\<open>c.json\<close>.\<close>

theorem deleteAccountByFile_unknown_name_witness:
  "sanitizeCredentialFileName ''c.json'' = Inr ''c.json'' \<and>
   deleteAccountByFile env0 (world_of [acct ''auths/a.json'', acct ''auths/b.json''] 1 0) ''c.json'' =
     (Inr False, world_of [acct ''auths/a.json'', acct ''auths/b.json''] 1 0)"
proof -
  have "\<forall>a\<in>set (accounts (world_of [acct ''auths/a.json'', acct ''auths/b.json''] 1 0)).
          basename (filePath a) \<noteq> ''c.json''"
    by (simp add: world_of_def acct_def)
  from deleteAccountByFile_unknown_name_is_noop [OF sanitize_c_json this] sanitize_c_json
  show ?thesis by simp
qed

text \<open>
  Claim C7 as stated fails for a pool of one account: slot 0 is the current slot and the
  last slot, the deletion succeeds, and the current index becomes 0, not
  \<open>newLength - 1 = -1\<close>.
\<close>

theorem deleteAccountByFile_last_account_counterexample:
  "fst (deleteAccountByFile env0 (world_of [acct ''auths/a.json''] 0 0) ''a.json'') = Inr True \<and>
   getCurrentAccountIndex (world_of [acct ''auths/a.json''] 0 0) Claude = 0 \<and>
   accounts (snd (deleteAccountByFile env0 (world_of [acct ''auths/a.json''] 0 0) ''a.json'')) = [] \<and>
   getCurrentAccountIndex (snd (deleteAccountByFile env0 (world_of [acct ''auths/a.json''] 0 0) ''a.json'')) Claude
     \<noteq> int (length (accounts (snd (deleteAccountByFile env0 (world_of [acct ''auths/a.json''] 0 0) ''a.json'')))) - 1"
proof -
  have f: "findIndex (\<lambda>a. basename (filePath a) = ''a.json'') (accounts (world_of [acct ''auths/a.json''] 0 0)) = Some 0"
    by (simp add: world_of_def acct_def)
  note d = delete_found [OF sanitize_a_json f, of env0]
  have a: "accounts (snd (deleteAccountByFile env0 (world_of [acct ''auths/a.json''] 0 0) ''a.json'')) = []"
    using d(2) by (simp add: splice1_def world_of_def)
  have c: "getCurrentAccountIndex (snd (deleteAccountByFile env0 (world_of [acct ''auths/a.json''] 0 0) ''a.json'')) Claude = 0"
    using d(3) [of Claude] by (simp add: splice1_def world_of_def del: getCurrentAccountIndex.simps)
  show ?thesis using d(1) a c by (simp add: world_of_def)
qed

text \<open>
  Claim C7 at a pool of three accounts with the current index on the last one: deleting the
  first account moves the index from 2 to 1.
\<close>

theorem deleteAccountByFile_adjusts_current_index_witness:
  "sanitizeCredentialFileName ''a.json'' = Inr ''a.json'' \<and>
   findIndex (\<lambda>a. basename (filePath a) = ''a.json'')
     (accounts (world_of [acct ''auths/a.json'', acct ''auths/b.json'', acct ''auths/c.json''] 2 0)) = Some 0 \<and>
   fst (deleteAccountByFile env0 (world_of [acct ''auths/a.json'', acct ''auths/b.json'', acct ''auths/c.json''] 2 0) ''a.json'') = Inr True \<and>
   map filePath (accounts (snd (deleteAccountByFile env0 (world_of [acct ''auths/a.json'', acct ''auths/b.json'', acct ''auths/c.json''] 2 0) ''a.json'')))
     = [''auths/b.json'', ''auths/c.json''] \<and>
   claudeIndex (snd (deleteAccountByFile env0 (world_of [acct ''auths/a.json'', acct ''auths/b.json'', acct ''auths/c.json''] 2 0) ''a.json'')) = 1"
proof -
  let ?w = "world_of [acct ''auths/a.json'', acct ''auths/b.json'', acct ''auths/c.json''] 2 0"
  obtain r w' where rw: "deleteAccountByFile env0 ?w ''a.json'' = (r, w')"
    by (cases "deleteAccountByFile env0 ?w ''a.json''")
  have f: "findIndex (\<lambda>a. basename (filePath a) = ''a.json'') (accounts ?w) = Some 0"
    by (simp add: world_of_def acct_def)
  note h = deleteAccountByFile_adjusts_current_index [OF sanitize_a_json f rw refl refl, of Claude]
  have c0: "getCurrentAccountIndex ?w Claude = 2" by (simp add: world_of_def)
  from h have r: "r = Inr True" by blast
  from h have "accounts w' = splice1 0 (accounts ?w)" by blast
  then have a: "accounts w' = [acct ''auths/b.json'', acct ''auths/c.json'']"
    by (simp add: world_of_def splice1_def)
  from h have "(if accounts w' = [] then getCurrentAccountIndex w' Claude = 0
          else if getCurrentAccountIndex ?w Claude < int 0 then getCurrentAccountIndex w' Claude = getCurrentAccountIndex ?w Claude
          else if int 0 < getCurrentAccountIndex ?w Claude then getCurrentAccountIndex w' Claude = getCurrentAccountIndex ?w Claude - 1
          else getCurrentAccountIndex w' Claude = min (getCurrentAccountIndex ?w Claude) (int (length (accounts w')) - 1))"
    by blast
  then have c: "claudeIndex w' = 1" unfolding c0 a by simp
  show ?thesis using sanitize_a_json f rw r a c by (simp add: acct_def)
qed

section \<open>Token refresh and credential lookup\<close>

lemma length_updateAccount [simp]: "length (accounts (updateAccount i f w)) = length (accounts w)"
  by (simp add: updateAccount_def)

lemma nth_updateAccount [simp]:
  "i < length (accounts w) \<Longrightarrow> accounts (updateAccount i f w) ! i = f (accounts w ! i)"
  by (simp add: updateAccount_def)

lemma events_updateAccount [simp]: "events (updateAccount i f w) = events w"
  by (simp add: updateAccount_def)

lemma clock_updateAccount [simp]: "clock (updateAccount i f w) = clock w"
  by (simp add: updateAccount_def)

lemma io_count_updateAccount [simp]: "io_count (updateAccount i f w) = io_count w"
  by (simp add: updateAccount_def)

lemma nextPromise_updateAccount [simp]: "nextPromise (updateAccount i f w) = nextPromise w"
  by (simp add: updateAccount_def)

lemma accounts_tick [simp]: "accounts (tick e w) = accounts w"
  by (simp add: tick_def)

lemma events_tick [simp]: "events (tick e w) = events w"
  by (simp add: tick_def)

lemma accounts_emit [simp]: "accounts (emit ev w) = accounts w"
  by (simp add: emit_def)

lemma events_emit [simp]: "events (emit ev w) = events w @ [ev]"
  by (simp add: emit_def)

lemma clock_emit [simp]: "clock (emit ev w) = clock w"
  by (simp add: emit_def)

lemma io_count_emit [simp]: "io_count (emit ev w) = io_count w"
  by (simp add: emit_def)

lemma refreshRequests_simps [simp]:
  "refreshRequests (updateAccount i f w) = refreshRequests w"
  "refreshRequests (tick e w) = refreshRequests w"
  "refreshRequests (emit ev w) = refreshRequests w @ (if isRefreshRequest ev then [ev] else [])"
  "refreshRequests (w\<lparr>nextPromise := n\<rparr>) = refreshRequests w"
  by (simp_all add: refreshRequests_def)

lemma clear_simps [simp]:
  "length (accounts (clearRefreshPromise i w)) = length (accounts w)"
  "i < length (accounts w) \<Longrightarrow> accounts (clearRefreshPromise i w) ! i = (accounts w ! i)\<lparr>refreshPromise := None\<rparr>"
  "refreshRequests (clearRefreshPromise i w) = refreshRequests w"
  by (simp_all add: clearRefreshPromise_def)

lemma storeCreds_simps [simp]:
  "length (accounts (storeCreds i p data w)) = length (accounts w)"
  "i < length (accounts w) \<Longrightarrow> accounts (storeCreds i p data w) ! i =
     (accounts w ! i)\<lparr>creds := data, refreshPromise := Some (p, AwaitWrite (access_token data))\<rparr>"
  "refreshRequests (storeCreds i p data w) = refreshRequests w"
  by (simp_all add: storeCreds_def)































section \<open>The order of account selection\<close>

lemma compareItems_le:
  "compareItems a b \<le> 0 \<longleftrightarrow>
   ranksBefore a b \<or> (cooldownActive a = cooldownActive b \<and> percentOrMinusOne a = percentOrMinusOne b
      \<and> resetTimeMs a = resetTimeMs b \<and> accountIndex a \<le> accountIndex b)"
  by (cases "resetTimeMs a"; cases "resetTimeMs b")
     (auto simp: compareItems_def ranksBefore_def percentOrMinusOne_def Let_def)

lemma resetsSooner_trans: "resetsSooner x y \<Longrightarrow> resetsSooner y z \<Longrightarrow> resetsSooner x z"
  by (cases x; cases y; cases z) auto

lemma resetsSooner_total: "resetsSooner x y \<or> x = y \<or> resetsSooner y x"
  by (cases x; cases y) auto

lemma resetsSooner_irrefl: "\<not> resetsSooner x x"
  by (cases x) auto

lemma compareItems_total: "compareItems a b \<le> 0 \<or> compareItems b a \<le> 0"
  unfolding compareItems_le ranksBefore_def
  using resetsSooner_total [of "resetTimeMs a" "resetTimeMs b"] by auto

lemma compareItems_trans:
  assumes "compareItems a b \<le> 0" "compareItems b c \<le> 0"
  shows "compareItems a c \<le> 0"
proof -
  have "resetsSooner (resetTimeMs a) (resetTimeMs c)"
    if "resetsSooner (resetTimeMs a) (resetTimeMs b)" "resetsSooner (resetTimeMs b) (resetTimeMs c)"
    using that by (rule resetsSooner_trans)
  then show ?thesis
    using assms unfolding compareItems_le ranksBefore_def by auto
qed

lemma set_insertBy: "set (insertBy cmp x ys) = insert x (set ys)"
  by (induction ys) auto

lemma set_sortBy: "set (sortBy cmp xs) = set xs"
  by (induction xs) (simp_all add: sortBy_def set_insertBy)

lemma length_insertBy: "length (insertBy cmp x ys) = Suc (length ys)"
  by (induction ys) auto

lemma length_sortBy: "length (sortBy cmp xs) = length xs"
  by (induction xs) (simp_all add: sortBy_def length_insertBy)

lemma sorted_insertBy:
  assumes tot: "\<And>a b. cmp a b \<le> 0 \<or> cmp b a \<le> 0"
    and tr: "\<And>a b c. cmp a b \<le> 0 \<Longrightarrow> cmp b c \<le> 0 \<Longrightarrow> cmp a c \<le> 0"
    and "sorted_wrt (\<lambda>a b. cmp a b \<le> 0) ys"
  shows "sorted_wrt (\<lambda>a b. cmp a b \<le> (0::int)) (insertBy cmp x ys)"
  using assms(3)
proof (induction ys)
  case Nil
  then show ?case by simp
next
  case (Cons y ys)
  show ?case
  proof (cases "cmp x y \<le> 0")
    case True
    with Cons.prems tr show ?thesis by auto
  next
    case False
    with tot have "cmp y x \<le> 0" by blast
    with False Cons show ?thesis by (auto simp: set_insertBy)
  qed
qed

lemma sorted_sortBy:
  assumes "\<And>a b. cmp a b \<le> 0 \<or> cmp b a \<le> 0"
    and "\<And>a b c. cmp a b \<le> 0 \<Longrightarrow> cmp b c \<le> 0 \<Longrightarrow> cmp a c \<le> 0"
  shows "sorted_wrt (\<lambda>a b. cmp a b \<le> (0::int)) (sortBy cmp xs)"
proof (induction xs)
  case Nil
  show ?case by (simp add: sortBy_def)
next
  case (Cons x xs)
  have "sortBy cmp (x # xs) = insertBy cmp x (sortBy cmp xs)" by (simp add: sortBy_def)
  with sorted_insertBy [OF assms Cons] show ?case by simp
qed



lemma candidate_itemOf:
  "candidate w modelId now i = itemOf (modelQuotaByAccount w (trim modelId)) now i (accounts w ! i)"
  by (simp add: candidate_def itemOf_def)

lemma accountLoop_step:
  "accountLoop pm now iz ex i (a # rest) (k, nz, its) =
     accountLoop pm now iz ex (Suc i) rest
       (if int i \<in> ex then (k, nz, its)
        else (k + (if remainingPercent (itemOf pm now i a) \<noteq> None then 1 else 0),
              nz + (if \<exists>p. remainingPercent (itemOf pm now i a) = Some p \<and> p > 0 then 1 else 0),
              its @ (if iz \<or> remainingPercent (itemOf pm now i a) \<noteq> Some 0
                     then [itemOf pm now i a] else [])))"
  by (simp add: itemOf_def Let_def split: option.splits)

lemma accountLoop_eq:
  assumes "accounts w = pre @ rest"
  shows "accountLoop (modelQuotaByAccount w (trim modelId)) now includeZero exclude (length pre) rest
           (k, nz, its) =
         (k + length (filter (\<lambda>j. int j \<notin> exclude \<and> remainingPercent (candidate w modelId now j) \<noteq> None)
                  [length pre..<length (accounts w)]),
          nz + length (filter (\<lambda>j. int j \<notin> exclude \<and>
                    (\<exists>p. remainingPercent (candidate w modelId now j) = Some p \<and> p > 0))
                  [length pre..<length (accounts w)]),
          its @ map (candidate w modelId now)
                  (filter (keeps w modelId now includeZero exclude) [length pre..<length (accounts w)]))"
  using assms
proof (induction rest arbitrary: pre k nz its)
  case Nil
  then show ?case by simp
next
  case (Cons a rest)
  let ?n = "length (accounts w)"
  let ?i = "length pre"
  from Cons.prems have a: "accounts w ! ?i = a" and lt: "?i < ?n" by simp_all
  from Cons.prems have "accounts w = (pre @ [a]) @ rest" by simp
  note IH = Cons.IH [OF this, simplified]
  have upt: "[?i..<?n] = ?i # [Suc ?i..<?n]" using lt by (rule upt_conv_Cons)
  have cand: "itemOf (modelQuotaByAccount w (trim modelId)) now ?i a = candidate w modelId now ?i"
    by (simp add: candidate_itemOf a)
  show ?case
    unfolding accountLoop_step cand upt
    by (cases "int ?i \<in> exclude") (auto simp add: IH keeps_def)
qed

lemma items_eq:
  "items (getAccountPrioritiesForModel w modelId optNow includeZero exclude) =
     sortBy compareItems (map (candidate w modelId (case optNow of Some n \<Rightarrow> n | None \<Rightarrow> clock w))
        (filter (keeps w modelId (case optNow of Some n \<Rightarrow> n | None \<Rightarrow> clock w) includeZero exclude)
           [0..<length (accounts w)]))"
  using accountLoop_eq [of w "[]" "accounts w" modelId _ includeZero exclude 0 0 "[]"]
  by (simp add: getAccountPrioritiesForModel_def Let_def)


lemma sorted_wrt_strict:
  assumes "sorted_wrt (\<lambda>a b. compareItems a b \<le> 0) xs" "distinct (map accountIndex xs)"
  shows "sorted_wrt ranksBefore xs"
  using assms
proof (induction xs)
  case Nil
  then show ?case by simp
next
  case (Cons x xs)
  have "ranksBefore x y" if "y \<in> set xs" for y
  proof -
    from that Cons.prems have "compareItems x y \<le> 0" "accountIndex x \<noteq> accountIndex y"
      by auto
    then show ?thesis unfolding compareItems_le by (auto simp: ranksBefore_def)
  qed
  with Cons show ?case by simp
qed

lemma distinct_candidates:
  "distinct (map accountIndex (map (candidate w modelId now) (filter P [0..<n])))"
proof -
  have "map accountIndex (map (candidate w modelId now) (filter P [0..<n])) = map int (filter P [0..<n])"
    by (simp add: candidate_def Let_def)
  then show ?thesis by (simp add: distinct_map inj_on_def)
qed

lemma distinct_sortBy_index:
  "distinct (map accountIndex (sortBy (cmp :: item \<Rightarrow> item \<Rightarrow> int) xs)) = distinct (map accountIndex xs)"
proof -
  have 1: "distinct (map f (insertBy cmp x ys)) = distinct (map f (x # ys))"
    for f :: "item \<Rightarrow> int" and x :: item and ys
    by (induction ys) (auto simp: set_insertBy)
  have 2: "sortBy cmp (x # xs) = insertBy cmp x (sortBy cmp xs)" for x xs
    by (simp add: sortBy_def)
  show ?thesis
    by (induction xs) (simp_all add: 1 2 set_sortBy, simp add: sortBy_def)
qed

text \<open>
  Claim C3. For every model, exclusion set and instant, the list that
  \<^verbatim>\<open>getAccountPrioritiesForModel\<close> returns is in the order of the specification (accounts in
  active cooldown last, then the remaining percentage descending with unknown as \<open>-1\<close>, then
  the reset time ascending with unknown as infinity, then the account index ascending), it
  holds exactly the annotated candidates of the accounts that are not excluded (and, unless
  \<^verbatim>\<open>includeZero\<close> is set, not known to be at 0 percent), each once; by default no item has a
  known remaining percentage of 0.
\<close>

theorem getAccountPrioritiesForModel_order:
  "sorted_wrt ranksBefore
     (items (getAccountPrioritiesForModel w modelId optNow includeZero exclude)) \<and>
   distinct (items (getAccountPrioritiesForModel w modelId optNow includeZero exclude)) \<and>
   set (items (getAccountPrioritiesForModel w modelId optNow includeZero exclude)) =
     {candidate w modelId (case optNow of Some n \<Rightarrow> n | None \<Rightarrow> clock w) i | i.
        i < length (accounts w) \<and> int i \<notin> exclude \<and>
        (includeZero \<or>
         remainingPercent (candidate w modelId (case optNow of Some n \<Rightarrow> n | None \<Rightarrow> clock w) i)
           \<noteq> Some 0)} \<and>
   Some 0 \<notin> remainingPercent ` set (items (getAccountPrioritiesForModel w modelId optNow False exclude))"
proof -
  define now where "now = (case optNow of Some n \<Rightarrow> n | None \<Rightarrow> clock w)"
  let ?c = "\<lambda>iz. map (candidate w modelId now) (filter (keeps w modelId now iz exclude) [0..<length (accounts w)])"
  have eq: "items (getAccountPrioritiesForModel w modelId optNow iz exclude) = sortBy compareItems (?c iz)" for iz
    by (simp add: items_eq now_def)
  have d: "distinct (map accountIndex (sortBy compareItems (?c iz)))" for iz
    by (simp only: distinct_sortBy_index distinct_candidates)
  have s: "sorted_wrt ranksBefore (sortBy compareItems (?c includeZero))"
    by (rule sorted_wrt_strict [OF sorted_sortBy [OF compareItems_total compareItems_trans] d])
  have d': "distinct (sortBy compareItems (?c includeZero))"
    using d [of includeZero] by (simp only: distinct_map)
  have st: "set (sortBy compareItems (?c iz)) =
     {candidate w modelId now i | i.
        i < length (accounts w) \<and> int i \<notin> exclude \<and>
        (iz \<or> remainingPercent (candidate w modelId now i) \<noteq> Some 0)}" for iz
    by (auto simp: set_sortBy keeps_def)
  have z: "Some 0 \<notin> remainingPercent ` set (sortBy compareItems (?c False))"
    unfolding st by auto
  show ?thesis unfolding eq now_def [symmetric] using s d' st z by blast
qed

text \<open>
  Claim C3 on four accounts: at instant 1000 the account at 60 percent comes first, the
  unknown one second, the one in cooldown last, and the one at 0 percent is left out unless
  \<^verbatim>\<open>includeZero\<close> is set; at instant 3000 the cooldown is over.
\<close>

theorem getAccountPrioritiesForModel_order_witness:
  "sorted_wrt ranksBefore (items (getAccountPrioritiesForModel pool4 ''m'' (Some 1000) False {})) \<and>
   map accountIndex (items (getAccountPrioritiesForModel pool4 ''m'' (Some 1000) False {})) = [2, 3, 0] \<and>
   map accountIndex (items (getAccountPrioritiesForModel pool4 ''m'' (Some 1000) True {})) = [2, 1, 3, 0] \<and>
   map accountIndex (items (getAccountPrioritiesForModel pool4 ''m'' (Some 3000) True {})) = [2, 0, 1, 3]"
proof -
  have 1: "map accountIndex (items (getAccountPrioritiesForModel pool4 ''m'' (Some 1000) False {})) = [2, 3, 0]"
    by code_simp
  have 2: "map accountIndex (items (getAccountPrioritiesForModel pool4 ''m'' (Some 1000) True {})) = [2, 1, 3, 0]"
    by code_simp
  have 3: "map accountIndex (items (getAccountPrioritiesForModel pool4 ''m'' (Some 3000) True {})) = [2, 0, 1, 3]"
    by code_simp
  from getAccountPrioritiesForModel_order [of pool4 "''m''" "Some 1000" False "{}"] 1 2 3
  show ?thesis by blast
qed

section \<open>Parsing durations\<close>



lemma digit_not_dot: "isDigit c \<Longrightarrow> c \<noteq> CHR ''.''"
  by (auto simp: isDigit_def)






















end
